theory Spec2Isabelle
  imports Complex_Main
begin

section \<open>Python values\<close>

text \<open>
  The numbers that flow through the library are Python ints and floats: the values the
  game-controller driver hands to the callbacks, the speeds and angles given to the drive
  module, the distances of a scan. A finite one is the real number it denotes; the two
  infinities and NaN are kept apart, because the comparisons of \<open>min\<close> and
  \<open>max\<close> treat them specially. Rounding of finite results is not represented.
\<close>

datatype pynum = Num real | PosInf | NegInf | NaN

text \<open>Python's \<open><\<close> on numbers: every comparison with NaN is false.\<close>

fun py_lt :: "pynum \<Rightarrow> pynum \<Rightarrow> bool" where
  "py_lt NaN _ = False"
| "py_lt _ NaN = False"
| "py_lt (Num a) (Num b) = (a < b)"
| "py_lt (Num _) PosInf = True"
| "py_lt NegInf (Num _) = True"
| "py_lt NegInf PosInf = True"
| "py_lt _ _ = False"

definition py_gt :: "pynum \<Rightarrow> pynum \<Rightarrow> bool" where
  "py_gt a b = py_lt b a"

text \<open>Python's \<open><=\<close>.\<close>

fun py_le :: "pynum \<Rightarrow> pynum \<Rightarrow> bool" where
  "py_le NaN _ = False"
| "py_le _ NaN = False"
| "py_le (Num a) (Num b) = (a \<le> b)"
| "py_le NegInf _ = True"
| "py_le _ PosInf = True"
| "py_le _ _ = False"

text \<open>
  The builtins \<open>min(a, b)\<close> and \<open>max(a, b)\<close> keep their first argument unless the
  second one is strictly smaller (resp. strictly greater).
\<close>

definition py_min :: "pynum \<Rightarrow> pynum \<Rightarrow> pynum" where
  "py_min a b = (if py_lt b a then b else a)"

definition py_max :: "pynum \<Rightarrow> pynum \<Rightarrow> pynum" where
  "py_max a b = (if py_gt b a then b else a)"

fun py_neg :: "pynum \<Rightarrow> pynum" where
  "py_neg (Num a) = Num (- a)"
| "py_neg PosInf = NegInf"
| "py_neg NegInf = PosInf"
| "py_neg NaN = NaN"

fun py_sub :: "pynum \<Rightarrow> pynum \<Rightarrow> pynum" where
  "py_sub NaN _ = NaN"
| "py_sub _ NaN = NaN"
| "py_sub (Num a) (Num b) = Num (a - b)"
| "py_sub PosInf PosInf = NaN"
| "py_sub NegInf NegInf = NaN"
| "py_sub PosInf _ = PosInf"
| "py_sub NegInf _ = NegInf"
| "py_sub (Num _) PosInf = NegInf"
| "py_sub (Num _) NegInf = PosInf"

fun py_mul :: "pynum \<Rightarrow> pynum \<Rightarrow> pynum" where
  "py_mul NaN _ = NaN"
| "py_mul _ NaN = NaN"
| "py_mul (Num a) (Num b) = Num (a * b)"
| "py_mul (Num a) PosInf = (if a = 0 then NaN else if 0 < a then PosInf else NegInf)"
| "py_mul (Num a) NegInf = (if a = 0 then NaN else if 0 < a then NegInf else PosInf)"
| "py_mul PosInf (Num b) = (if b = 0 then NaN else if 0 < b then PosInf else NegInf)"
| "py_mul NegInf (Num b) = (if b = 0 then NaN else if 0 < b then NegInf else PosInf)"
| "py_mul PosInf PosInf = PosInf"
| "py_mul NegInf NegInf = PosInf"
| "py_mul PosInf NegInf = NegInf"
| "py_mul NegInf PosInf = NegInf"

text \<open>Truth value of a number (\<open>bool(value)\<close>, \<open>if value:\<close>): everything but zero.\<close>

definition py_bool :: "pynum \<Rightarrow> bool" where
  "py_bool v = (v \<noteq> Num 0)"

datatype error = IndexError | TypeError

text \<open>
  Reading and writing a list at an index that an enum member supplies (never negative):
  out of range, Python raises \<open>IndexError\<close>.
\<close>

definition py_index :: "'a list \<Rightarrow> nat \<Rightarrow> error + 'a" where
  "py_index xs i = (if i < length xs then Inr (xs ! i) else Inl IndexError)"

definition py_store :: "'a list \<Rightarrow> nat \<Rightarrow> 'a \<Rightarrow> error + 'a list" where
  "py_store xs i v = (if i < length xs then Inr (xs[i := v]) else Inl IndexError)"

section \<open>The drive module (\<open>Racecar.Drive\<close>)\<close>

text \<open>
  The message holds the two fields of \<open>AckermannDriveStamped.drive\<close> that the
  library writes. The publisher is the stream of messages handed to
  \<open>publish\<close>, oldest first.
\<close>

record AckermannDrive =
  speed :: pynum
  steering_angle :: pynum

record Drive =
  Drive_message :: AckermannDrive
  Drive_publisher :: "AckermannDrive list"

text \<open>
  Modelled from the spec: the constructor \<open>AckermannDriveStamped()\<close> of the ROS
  message package, which is not part of the repository. The specification gives the
  command of a fresh message as (0, 0).
\<close>

definition AckermannDriveStamped :: AckermannDrive where
  "AckermannDriveStamped = \<lparr>speed = Num 0, steering_angle = Num 0\<rparr>"

definition Drive_init :: Drive where
  "Drive_init = \<lparr>Drive_message = AckermannDriveStamped, Drive_publisher = []\<rparr>"

definition MAX_SPEED :: pynum where
  "MAX_SPEED = Num 5"

definition MAX_ANGLE :: pynum where
  "MAX_ANGLE = Num 20"

definition set_speed_angle :: "pynum \<Rightarrow> pynum \<Rightarrow> Drive \<Rightarrow> Drive" where
  "set_speed_angle sp ang d =
     (let sp' = py_max (py_neg MAX_SPEED) (py_min MAX_SPEED sp);
          ang' = py_max (py_neg MAX_ANGLE) (py_min MAX_ANGLE ang)
      in d\<lparr>Drive_message := AckermannDriveStamped\<lparr>speed := sp', steering_angle := ang'\<rparr>\<rparr>)"

definition stop :: "Drive \<Rightarrow> Drive" where
  "stop d = set_speed_angle (Num 0) (Num 0) d"

definition Drive_update :: "Drive \<Rightarrow> Drive" where
  "Drive_update d = d\<lparr>Drive_publisher := Drive_publisher d @ [Drive_message d]\<rparr>"

section \<open>The controller module (\<open>Racecar.Controller\<close>)\<close>

datatype Button = Button_A | Button_B | Button_X | Button_Y
  | Button_LB | Button_RB | Button_LJOY | Button_RJOY

datatype Trigger = Trigger_LEFT | Trigger_RIGHT

datatype Joystick = Joystick_LEFT | Joystick_RIGHT

fun Button_value :: "Button \<Rightarrow> nat" where
  "Button_value Button_A = 0"
| "Button_value Button_B = 1"
| "Button_value Button_X = 2"
| "Button_value Button_Y = 3"
| "Button_value Button_LB = 4"
| "Button_value Button_RB = 5"
| "Button_value Button_LJOY = 6"
| "Button_value Button_RJOY = 7"

fun Trigger_value :: "Trigger \<Rightarrow> nat" where
  "Trigger_value Trigger_LEFT = 0"
| "Trigger_value Trigger_RIGHT = 1"

fun Joystick_value :: "Joystick \<Rightarrow> nat" where
  "Joystick_value Joystick_LEFT = 0"
| "Joystick_value Joystick_RIGHT = 1"

text \<open>
  The accessors take any Python object and test it with \<open>isinstance\<close>: the members
  of the three enums, and values that belong to none of them.
\<close>

datatype pyobj =
    Obj_Button Button
  | Obj_Trigger Trigger
  | Obj_Joystick Joystick
  | Obj_Num pynum
  | Obj_Bool bool
  | Obj_Str string
  | Obj_None

text \<open>
  The private attributes of the controller, named as Python mangles them
  (\<open>_Controller__is_down\<close>, ...).
\<close>

record Controller =
  Controller_was_down :: "bool list"
  Controller_is_down :: "bool list"
  Controller_cur_down :: "bool list"
  Controller_last_trigger :: "pynum list"
  Controller_cur_trigger :: "pynum list"
  Controller_last_joystick :: "pynum list list"
  Controller_cur_joystick :: "pynum list list"
  Controller_cur_start :: pynum
  Controller_cur_back :: pynum

text \<open>The attributes as \<open>Controller.__init__\<close> sets them; \<open>len(self.Button)\<close> is 8.\<close>

definition Controller_init :: Controller where
  "Controller_init =
     \<lparr>Controller_was_down = replicate 8 False,
      Controller_is_down = replicate 8 False,
      Controller_cur_down = replicate 8 False,
      Controller_last_trigger = [Num 0, Num 0],
      Controller_cur_trigger = [Num 0, Num 0],
      Controller_last_joystick = [[Num 0, Num 0], [Num 0, Num 0]],
      Controller_cur_joystick = [[Num 0, Num 0], [Num 0, Num 0]],
      Controller_cur_start = Num 0,
      Controller_cur_back = Num 0\<rparr>"

fun is_down :: "Controller \<Rightarrow> pyobj \<Rightarrow> error + bool" where
  "is_down c (Obj_Button b) = py_index (Controller_is_down c) (Button_value b)"
| "is_down c _ = Inr False"

text \<open>
  \<open>x and not y\<close> evaluates \<open>y\<close> only when \<open>x\<close> is true, so the second list is
  read only then.
\<close>

fun was_pressed :: "Controller \<Rightarrow> pyobj \<Rightarrow> error + bool" where
  "was_pressed c (Obj_Button b) =
     (case py_index (Controller_is_down c) (Button_value b) of
        Inl e \<Rightarrow> Inl e
      | Inr dn \<Rightarrow>
          if dn then
            (case py_index (Controller_was_down c) (Button_value b) of
               Inl e \<Rightarrow> Inl e
             | Inr w \<Rightarrow> Inr (\<not> w))
          else Inr False)"
| "was_pressed c _ = Inr False"

fun was_released :: "Controller \<Rightarrow> pyobj \<Rightarrow> error + bool" where
  "was_released c (Obj_Button b) =
     (case py_index (Controller_is_down c) (Button_value b) of
        Inl e \<Rightarrow> Inl e
      | Inr dn \<Rightarrow>
          if \<not> dn then py_index (Controller_was_down c) (Button_value b)
          else Inr False)"
| "was_released c _ = Inr False"

fun get_trigger :: "Controller \<Rightarrow> pyobj \<Rightarrow> error + pynum" where
  "get_trigger c (Obj_Trigger t) = py_index (Controller_last_trigger c) (Trigger_value t)"
| "get_trigger c _ = Inr (Num 0)"

text \<open>A joystick reading is the sequence of its two axes.\<close>

fun get_joystick :: "Controller \<Rightarrow> pyobj \<Rightarrow> error + pynum list" where
  "get_joystick c (Obj_Joystick j) = py_index (Controller_last_joystick c) (Joystick_value j)"
| "get_joystick c _ = Inr [Num 0, Num 0]"

definition button_callback :: "Button \<Rightarrow> pynum \<Rightarrow> Controller \<Rightarrow> error + Controller" where
  "button_callback b v c =
     (case py_store (Controller_cur_down c) (Button_value b) (py_bool v) of
        Inl e \<Rightarrow> Inl e
      | Inr xs \<Rightarrow> Inr (c\<lparr>Controller_cur_down := xs\<rparr>))"

definition trigger_callback :: "Trigger \<Rightarrow> pynum \<Rightarrow> Controller \<Rightarrow> error + Controller" where
  "trigger_callback t v c =
     (case py_store (Controller_cur_trigger c) (Trigger_value t) v of
        Inl e \<Rightarrow> Inl e
      | Inr xs \<Rightarrow> Inr (c\<lparr>Controller_cur_trigger := xs\<rparr>))"

definition joystick_callback ::
  "Joystick \<Rightarrow> nat \<Rightarrow> pynum \<Rightarrow> Controller \<Rightarrow> error + Controller" where
  "joystick_callback j axis v c =
     (case py_index (Controller_cur_joystick c) (Joystick_value j) of
        Inl e \<Rightarrow> Inl e
      | Inr row \<Rightarrow>
          (case py_store row axis v of
             Inl e \<Rightarrow> Inl e
           | Inr row' \<Rightarrow>
               Inr (c\<lparr>Controller_cur_joystick :=
                      (Controller_cur_joystick c)[Joystick_value j := row']\<rparr>)))"

text \<open>
  \<open>Controller.__update\<close>, the commit of a tick: four assignments in order, each a deep
  copy, so the committed lists share nothing with the raw ones.
\<close>

definition Controller_update :: "Controller \<Rightarrow> Controller" where
  "Controller_update c =
     c\<lparr>Controller_was_down := Controller_is_down c,
       Controller_is_down := Controller_cur_down c,
       Controller_last_trigger := Controller_cur_trigger c,
       Controller_last_joystick := Controller_cur_joystick c\<rparr>"

section \<open>The racecar (\<open>Racecar\<close>)\<close>

text \<open>
  A function supplied by the user acts on the car through the drive module and reads the
  controller; it is represented by what it does to the drive module. \<open>PyNone\<close> is the
  value \<open>None\<close>, which cannot be called.
\<close>

datatype user_value = PyNone | PyFun "Controller \<Rightarrow> Drive \<Rightarrow> Drive"

text \<open>
  What \<open>__cur_update\<close> refers to: the built-in update, or the value that
  \<open>__user_update\<close> held when the start handler copied it.
\<close>

datatype update_ref = Default_update | User_update user_value

text \<open>What an observer sees of a run: the lines printed and the calls of user functions.\<close>

datatype action = Print string | Call_user_start | Call_user_update

text \<open>
  How a handler ends: it returns, it raises an exception, or it reaches \<open>exit(0)\<close>,
  which raises \<open>SystemExit\<close> in the thread that called the handler. The state it
  leaves behind is returned with it.
\<close>

datatype outcome = Normal | Raised error | SystemExit

record Racecar =
  Racecar_cur_update :: update_ref
  drive :: Drive
  controller :: Controller
  Racecar_user_start :: user_value
  Racecar_user_update :: user_value
  trace :: "action list"

definition set_start_update :: "user_value \<Rightarrow> user_value \<Rightarrow> Racecar \<Rightarrow> Racecar" where
  "set_start_update start update rc =
     rc\<lparr>Racecar_user_start := start, Racecar_user_update := update\<rparr>"

definition handle_start :: "Racecar \<Rightarrow> outcome \<times> Racecar" where
  "handle_start rc =
     (let rc1 = rc\<lparr>trace := trace rc @ [Print ''>> Entering user program mode'']\<rparr>
      in case Racecar_user_start rc1 of
           PyNone \<Rightarrow> (Raised TypeError, rc1)
         | PyFun f \<Rightarrow>
             (Normal,
              rc1\<lparr>trace := trace rc1 @ [Call_user_start],
                  drive := f (controller rc1) (drive rc1),
                  Racecar_cur_update := User_update (Racecar_user_update rc1)\<rparr>))"

text \<open>\<open>__default_start\<close> does nothing.\<close>

definition handle_back :: "Racecar \<Rightarrow> outcome \<times> Racecar" where
  "handle_back rc =
     (Normal,
      rc\<lparr>trace := trace rc @ [Print ''>> Entering default drive mode''],
         Racecar_cur_update := Default_update\<rparr>)"

definition handle_exit :: "Racecar \<Rightarrow> outcome \<times> Racecar" where
  "handle_exit rc = (SystemExit, rc\<lparr>trace := trace rc @ [Print ''>> Goodbye!'']\<rparr>)"

definition SPEED_MULTIPLIER :: pynum where
  "SPEED_MULTIPLIER = Num 1"

definition ANGLE_MULTIPLIER :: pynum where
  "ANGLE_MULTIPLIER = Num 20"

text \<open>
  The speed and the angle that \<open>__default_update\<close> computes from the committed
  controller state and passes to \<open>set_speed_angle\<close>.
\<close>

definition default_command :: "Controller \<Rightarrow> error + (pynum \<times> pynum)" where
  "default_command c =
     (case get_trigger c (Obj_Trigger Trigger_LEFT) of
        Inl e \<Rightarrow> Inl e
      | Inr forwardSpeed \<Rightarrow>
     (case get_trigger c (Obj_Trigger Trigger_RIGHT) of
        Inl e \<Rightarrow> Inl e
      | Inr backSpeed \<Rightarrow>
     (let sp0 = py_mul (py_sub forwardSpeed backSpeed) SPEED_MULTIPLIER;
          sp = (if py_gt forwardSpeed (Num 0) \<and> py_gt backSpeed (Num 0) then Num 0 else sp0)
      in case get_joystick c (Obj_Joystick Joystick_LEFT) of
           Inl e \<Rightarrow> Inl e
         | Inr joy \<Rightarrow>
        (case py_index joy 0 of
           Inl e \<Rightarrow> Inl e
         | Inr x \<Rightarrow> Inr (sp, py_mul x ANGLE_MULTIPLIER)))))"

definition default_update :: "Racecar \<Rightarrow> outcome \<times> Racecar" where
  "default_update rc =
     (case default_command (controller rc) of
        Inl e \<Rightarrow> (Raised e, rc)
      | Inr (sp, ang) \<Rightarrow> (Normal, rc\<lparr>drive := set_speed_angle sp ang (drive rc)\<rparr>))"

definition update_modules :: "Racecar \<Rightarrow> Racecar" where
  "update_modules rc =
     rc\<lparr>drive := Drive_update (drive rc), controller := Controller_update (controller rc)\<rparr>"

text \<open>
  One iteration of the loop of \<open>__run\<close>: the current update function, then the flush of
  the drive module and the commit of the controller. The sleep is not represented.
\<close>

definition run_iteration :: "Racecar \<Rightarrow> outcome \<times> Racecar" where
  "run_iteration rc =
     (case Racecar_cur_update rc of
        Default_update \<Rightarrow>
          (case default_update rc of
             (Normal, rc1) \<Rightarrow> (Normal, update_modules rc1)
           | r \<Rightarrow> r)
      | User_update PyNone \<Rightarrow> (Raised TypeError, rc)
      | User_update (PyFun f) \<Rightarrow>
          (Normal,
           update_modules
             (rc\<lparr>trace := trace rc @ [Call_user_update],
                 drive := f (controller rc) (drive rc)\<rparr>)))"

definition start_callback :: "pynum \<Rightarrow> Racecar \<Rightarrow> outcome \<times> Racecar" where
  "start_callback v rc =
     (let rc1 = rc\<lparr>controller := (controller rc)\<lparr>Controller_cur_start := v\<rparr>\<rparr>
      in if py_bool v then
           (if py_bool (Controller_cur_back (controller rc1)) then handle_exit rc1
            else handle_start rc1)
         else (Normal, rc1))"

definition back_callback :: "pynum \<Rightarrow> Racecar \<Rightarrow> outcome \<times> Racecar" where
  "back_callback v rc =
     (let rc1 = rc\<lparr>controller := (controller rc)\<lparr>Controller_cur_back := v\<rparr>\<rparr>
      in if py_bool v then
           (if py_bool (Controller_cur_start (controller rc1)) then handle_exit rc1
            else handle_back rc1)
         else (Normal, rc1))"

text \<open>
  \<open>Racecar.__init__\<close>: the modules, no user functions, the entry into default drive
  mode, and the welcome message.
\<close>

definition Racecar_init :: Racecar where
  "Racecar_init =
     (let rc = \<lparr>Racecar_cur_update = Default_update, drive = Drive_init,
                controller = Controller_init, Racecar_user_start = PyNone,
                Racecar_user_update = PyNone, trace = []\<rparr>;
          rc1 = snd (handle_back rc)
      in rc1\<lparr>trace := trace rc1 @
           [Print ''>> Racecar initialization successful'',
            Print (''>> Press the START button to run your program, '' @
                   ''press the BACK button to enter default drive mode, '' @
                   ''and press BACK and START at the same time to exit.'')]\<rparr>)"

subsection \<open>The callbacks registered with the game-controller driver\<close>

text \<open>The controls of the driver under which \<open>Controller.__init__\<close> registers a callback.\<close>

datatype XboxControls =
    XBOX_A | XBOX_B | XBOX_X | XBOX_Y | XBOX_LB | XBOX_RB
  | XBOX_LEFTTHUMB | XBOX_RIGHTTHUMB
  | XBOX_LTRIGGER | XBOX_RTRIGGER
  | XBOX_LTHUMBX | XBOX_LTHUMBY | XBOX_RTHUMBX
  | XBOX_START | XBOX_BACK

datatype callback =
    Cb_button Button
  | Cb_trigger Trigger
  | Cb_joystick Joystick nat
  | Cb_start
  | Cb_back

text \<open>The calls of \<open>setupControlCallback\<close>, in the order of the source.\<close>

definition registrations :: "(XboxControls \<times> callback) list" where
  "registrations =
     [(XBOX_A, Cb_button Button_A),
      (XBOX_B, Cb_button Button_B),
      (XBOX_X, Cb_button Button_X),
      (XBOX_Y, Cb_button Button_Y),
      (XBOX_LB, Cb_button Button_LB),
      (XBOX_RB, Cb_button Button_RB),
      (XBOX_LEFTTHUMB, Cb_button Button_LJOY),
      (XBOX_RIGHTTHUMB, Cb_button Button_RJOY),
      (XBOX_LTRIGGER, Cb_trigger Trigger_LEFT),
      (XBOX_RTRIGGER, Cb_trigger Trigger_RIGHT),
      (XBOX_LTHUMBX, Cb_joystick Joystick_RIGHT 0),
      (XBOX_LTHUMBY, Cb_joystick Joystick_RIGHT 1),
      (XBOX_RTHUMBX, Cb_joystick Joystick_RIGHT 0),
      (XBOX_RTHUMBX, Cb_joystick Joystick_RIGHT 1),
      (XBOX_START, Cb_start),
      (XBOX_BACK, Cb_back)]"

definition on_controller :: "error + Controller \<Rightarrow> Racecar \<Rightarrow> outcome \<times> Racecar" where
  "on_controller r rc =
     (case r of Inl e \<Rightarrow> (Raised e, rc) | Inr c \<Rightarrow> (Normal, rc\<lparr>controller := c\<rparr>))"

fun invoke :: "callback \<Rightarrow> pynum \<Rightarrow> Racecar \<Rightarrow> outcome \<times> Racecar" where
  "invoke (Cb_button b) v rc = on_controller (button_callback b v (controller rc)) rc"
| "invoke (Cb_trigger t) v rc = on_controller (trigger_callback t v (controller rc)) rc"
| "invoke (Cb_joystick j axis) v rc =
     on_controller (joystick_callback j axis v (controller rc)) rc"
| "invoke Cb_start v rc = start_callback v rc"
| "invoke Cb_back v rc = back_callback v rc"

text \<open>
  What can happen to a running racecar: the driver calls one of the registered callbacks
  (given by its position in the list; how the driver chooses among them is its own
  business) with a value, the loop runs one iteration, or the user program calls
  \<open>set_start_update\<close>.
\<close>

datatype event = Fire nat pynum | Tick | Set_start_update user_value user_value

fun step :: "event \<Rightarrow> Racecar \<Rightarrow> outcome \<times> Racecar" where
  "step (Fire i v) rc =
     (if i < length registrations then invoke (snd (registrations ! i)) v rc
      else (Normal, rc))"
| "step Tick rc = run_iteration rc"
| "step (Set_start_update start update) rc = (Normal, set_start_update start update rc)"

text \<open>
  A sequence of events, with the outcome of each and the state at the end. The loop runs
  in the thread that \<open>Racecar.__init__\<close> creates for it, and the callbacks are called
  by the driver, never by the loop. An exception, and likewise the \<open>SystemExit\<close> of
  \<open>exit(0)\<close>, ends at most the thread in which it is raised and leaves the state as it
  is; every later event may still happen.
\<close>

fun run :: "event list \<Rightarrow> Racecar \<Rightarrow> outcome list \<times> Racecar" where
  "run [] rc = ([], rc)"
| "run (e # es) rc =
     (case step e rc of
        (out, rc') \<Rightarrow>
          (case run es rc' of
             (outs, rc'') \<Rightarrow> (out # outs, rc'')))"

text \<open>\<open>n\<close> iterations of the loop in a row; an exception in the loop ends it.\<close>

fun iterations :: "nat \<Rightarrow> Racecar \<Rightarrow> outcome \<times> Racecar" where
  "iterations 0 rc = (Normal, rc)"
| "iterations (Suc n) rc =
     (case run_iteration rc of
        (Normal, rc') \<Rightarrow> iterations n rc'
      | r \<Rightarrow> r)"

section \<open>The lidar module (\<open>Lidar\<close>)\<close>

text \<open>
  \<open>Lidar_event\<close> is the flag of the \<open>threading.Event\<close>; a scan is the sequence
  \<open>data.ranges\<close>.
\<close>

record Lidar =
  Lidar_event :: bool
  Lidar_length :: nat
  Lidar_ranges :: "pynum list"

definition Lidar_init :: Lidar where
  "Lidar_init = \<lparr>Lidar_event = False, Lidar_length = 0, Lidar_ranges = []\<rparr>"

definition scan_callback :: "pynum list \<Rightarrow> Lidar \<Rightarrow> Lidar" where
  "scan_callback data_ranges l =
     l\<lparr>Lidar_length := length data_ranges, Lidar_ranges := data_ranges, Lidar_event := True\<rparr>"

text \<open>
  \<open>self._event.wait(timeout)\<close> while no scan arrives during the call: with the flag set
  it returns at once; with the flag clear it returns when the timeout (a finite number of
  seconds) has elapsed, and without a timeout it never returns (\<open>None\<close>).
\<close>

datatype waited = At_once | Timeout_elapsed

definition event_wait :: "real option \<Rightarrow> Lidar \<Rightarrow> waited option" where
  "event_wait timeout l =
     (if Lidar_event l then Some At_once
      else case timeout of None \<Rightarrow> None | Some t \<Rightarrow> Some Timeout_elapsed)"

definition get_length :: "real option \<Rightarrow> Lidar \<Rightarrow> (waited \<times> nat) option" where
  "get_length timeout l =
     (case event_wait timeout l of None \<Rightarrow> None | Some w \<Rightarrow> Some (w, Lidar_length l))"

definition get_ranges :: "real option \<Rightarrow> Lidar \<Rightarrow> (waited \<times> pynum list) option" where
  "get_ranges timeout l =
     (case event_wait timeout l of None \<Rightarrow> None | Some w \<Rightarrow> Some (w, Lidar_ranges l))"

text \<open>The scans that have arrived so far, oldest first.\<close>

fun arrivals :: "pynum list list \<Rightarrow> Lidar \<Rightarrow> Lidar" where
  "arrivals [] l = l"
| "arrivals (s # ss) l = arrivals ss (scan_callback s l)"

section \<open>Runs of the controller and well-formed states\<close>

text \<open>
  The raw button events that arrive between two commits, applied in order.
\<close>

fun button_events :: "(Button \<times> pynum) list \<Rightarrow> Controller \<Rightarrow> error + Controller" where
  "button_events [] c = Inr c"
| "button_events ((b, v) # evs) c =
     (case button_callback b v c of
        Inl e \<Rightarrow> Inl e
      | Inr c' \<Rightarrow> button_events evs c')"

text \<open>
  A run of ticks: each element of the argument holds the raw button events of one tick,
  which its commit follows. The result lists the controller state after each commit.
\<close>

fun ticks :: "(Button \<times> pynum) list list \<Rightarrow> Controller \<Rightarrow> error + Controller list" where
  "ticks [] c = Inr []"
| "ticks (evs # fs) c =
     (case button_events evs c of
        Inl e \<Rightarrow> Inl e
      | Inr c' \<Rightarrow>
          (case ticks fs (Controller_update c') of
             Inl e \<Rightarrow> Inl e
           | Inr cs \<Rightarrow> Inr (Controller_update c' # cs)))"

text \<open>The number of places where a sequence of snapshots goes from false to true.\<close>

fun rising_edges :: "bool list \<Rightarrow> nat" where
  "rising_edges (x # y # xs) = (if \<not> x \<and> y then 1 else 0) + rising_edges (y # xs)"
| "rising_edges _ = 0"

text \<open>
  The value that the last raw event for button \<open>b\<close> in a sequence carries, \<open>d\<close> if
  there is none; and the value so obtained at each commit of a run of ticks.
\<close>

fun latest :: "Button \<Rightarrow> (Button \<times> pynum) list \<Rightarrow> bool \<Rightarrow> bool" where
  "latest b [] d = d"
| "latest b ((b', v) # evs) d = latest b evs (if b' = b then py_bool v else d)"

fun snapshots :: "Button \<Rightarrow> (Button \<times> pynum) list list \<Rightarrow> bool \<Rightarrow> bool list" where
  "snapshots b [] d = []"
| "snapshots b (evs # fs) d = latest b evs d # snapshots b fs (latest b evs d)"

text \<open>
  The shape that \<open>Controller.__init__\<close> gives the lists, and the left joystick at rest
  in both the raw and the committed state.
\<close>

definition well_formed :: "Controller \<Rightarrow> bool" where
  "well_formed c =
     (length (Controller_was_down c) = 8 \<and>
      length (Controller_is_down c) = 8 \<and>
      length (Controller_cur_down c) = 8 \<and>
      length (Controller_last_trigger c) = 2 \<and>
      length (Controller_cur_trigger c) = 2 \<and>
      map length (Controller_last_joystick c) = [2, 2] \<and>
      map length (Controller_cur_joystick c) = [2, 2])"

definition left_at_rest :: "Controller \<Rightarrow> bool" where
  "left_at_rest c =
     (Controller_cur_joystick c ! 0 = [Num 0, Num 0] \<and>
      Controller_last_joystick c ! 0 = [Num 0, Num 0])"

text \<open>How often the user's start function has been called.\<close>

definition start_calls :: "Racecar \<Rightarrow> nat" where
  "start_calls rc = length (filter (\<lambda>a. a = Call_user_start) (trace rc))"

text \<open>The events that set the user functions.\<close>

fun is_set_start_update :: "event \<Rightarrow> bool" where
  "is_set_start_update (Set_start_update _ _) = True"
| "is_set_start_update _ = False"


section \<open>Properties of the drive module\<close>

lemma clamp_cases:
  "py_max (py_neg (Num m)) (py_min (Num m) v) =
     (if v = NaN then Num m
      else if py_lt (Num m) v then Num m
      else if py_lt v (Num (- m)) then Num (- m)
      else v)" if "0 \<le> m"
  using that by (cases v) (auto simp: py_max_def py_min_def py_gt_def)

lemma clamp_range:
  "py_le (Num (- m)) (py_max (py_neg (Num m)) (py_min (Num m) v)) \<and>
   py_le (py_max (py_neg (Num m)) (py_min (Num m) v)) (Num m)" if "0 \<le> m"
  using that by (cases v) (auto simp: py_max_def py_min_def py_gt_def)

text \<open>
  C3. \<open>set_speed_angle\<close> stores a command whose speed is the given speed clamped to
  [-MAX_SPEED, MAX_SPEED] and whose angle is the given angle clamped to
  [-MAX_ANGLE, MAX_ANGLE], with MAX_SPEED = 5 and MAX_ANGLE = 20: the stored value always
  lies in the interval, a value above the upper bound is stored as the upper bound, a value
  below the lower bound as the lower bound, and a value inside the interval as itself.
  Nothing is published by the call. (NaN compares false with everything; it is stored as
  the upper bound, which lies in the interval.)
\<close>

theorem set_speed_angle_clamps:
  "MAX_SPEED = Num 5 \<and> MAX_ANGLE = Num 20 \<and>
   py_le (py_neg MAX_SPEED) (speed (Drive_message (set_speed_angle sp ang d))) \<and>
   py_le (speed (Drive_message (set_speed_angle sp ang d))) MAX_SPEED \<and>
   (py_gt sp MAX_SPEED \<longrightarrow> speed (Drive_message (set_speed_angle sp ang d)) = MAX_SPEED) \<and>
   (py_lt sp (py_neg MAX_SPEED) \<longrightarrow>
      speed (Drive_message (set_speed_angle sp ang d)) = py_neg MAX_SPEED) \<and>
   (py_le (py_neg MAX_SPEED) sp \<and> py_le sp MAX_SPEED \<longrightarrow>
      speed (Drive_message (set_speed_angle sp ang d)) = sp) \<and>
   py_le (py_neg MAX_ANGLE) (steering_angle (Drive_message (set_speed_angle sp ang d))) \<and>
   py_le (steering_angle (Drive_message (set_speed_angle sp ang d))) MAX_ANGLE \<and>
   (py_gt ang MAX_ANGLE \<longrightarrow>
      steering_angle (Drive_message (set_speed_angle sp ang d)) = MAX_ANGLE) \<and>
   (py_lt ang (py_neg MAX_ANGLE) \<longrightarrow>
      steering_angle (Drive_message (set_speed_angle sp ang d)) = py_neg MAX_ANGLE) \<and>
   (py_le (py_neg MAX_ANGLE) ang \<and> py_le ang MAX_ANGLE \<longrightarrow>
      steering_angle (Drive_message (set_speed_angle sp ang d)) = ang) \<and>
   Drive_publisher (set_speed_angle sp ang d) = Drive_publisher d"
proof -
  have s: "speed (Drive_message (set_speed_angle sp ang d)) =
           py_max (py_neg (Num 5)) (py_min (Num 5) sp)"
    by (simp add: set_speed_angle_def MAX_SPEED_def Let_def)
  have a: "steering_angle (Drive_message (set_speed_angle sp ang d)) =
           py_max (py_neg (Num 20)) (py_min (Num 20) ang)"
    by (simp add: set_speed_angle_def MAX_ANGLE_def Let_def)
  have p: "Drive_publisher (set_speed_angle sp ang d) = Drive_publisher d"
    by (simp add: set_speed_angle_def Let_def)
  have s_range: "py_le (Num (- 5)) (py_max (py_neg (Num 5)) (py_min (Num 5) sp)) \<and>
                 py_le (py_max (py_neg (Num 5)) (py_min (Num 5) sp)) (Num 5)"
    using clamp_range [of 5 sp] by simp
  have a_range: "py_le (Num (- 20)) (py_max (py_neg (Num 20)) (py_min (Num 20) ang)) \<and>
                 py_le (py_max (py_neg (Num 20)) (py_min (Num 20) ang)) (Num 20)"
    using clamp_range [of 20 ang] by simp
  have s_val: "py_max (py_neg (Num 5)) (py_min (Num 5) sp) =
     (if sp = NaN then Num 5 else if py_lt (Num 5) sp then Num 5
      else if py_lt sp (Num (- 5)) then Num (- 5) else sp)"
    using clamp_cases [of 5 sp] by simp
  have a_val: "py_max (py_neg (Num 20)) (py_min (Num 20) ang) =
     (if ang = NaN then Num 20 else if py_lt (Num 20) ang then Num 20
      else if py_lt ang (Num (- 20)) then Num (- 20) else ang)"
    using clamp_cases [of 20 ang] by simp
  have s_hi: "py_gt sp (Num 5) \<longrightarrow> py_max (py_neg (Num 5)) (py_min (Num 5) sp) = Num 5"
    unfolding s_val by (simp add: py_gt_def)
  have s_lo: "py_lt sp (Num (- 5)) \<longrightarrow>
              py_max (py_neg (Num 5)) (py_min (Num 5) sp) = Num (- 5)"
    unfolding s_val by (cases sp) auto
  have s_in: "py_le (Num (- 5)) sp \<and> py_le sp (Num 5) \<longrightarrow>
              py_max (py_neg (Num 5)) (py_min (Num 5) sp) = sp"
    unfolding s_val by (cases sp) auto
  have a_hi: "py_gt ang (Num 20) \<longrightarrow>
              py_max (py_neg (Num 20)) (py_min (Num 20) ang) = Num 20"
    unfolding a_val by (simp add: py_gt_def)
  have a_lo: "py_lt ang (Num (- 20)) \<longrightarrow>
              py_max (py_neg (Num 20)) (py_min (Num 20) ang) = Num (- 20)"
    unfolding a_val by (cases ang) auto
  have a_in: "py_le (Num (- 20)) ang \<and> py_le ang (Num 20) \<longrightarrow>
              py_max (py_neg (Num 20)) (py_min (Num 20) ang) = ang"
    unfolding a_val by (cases ang) auto
  show ?thesis
    unfolding s a p
    using s_range a_range s_hi s_lo s_in a_hi a_lo a_in
    by (simp add: MAX_SPEED_def MAX_ANGLE_def)
qed

theorem set_speed_angle_clamps_witness:
  "py_gt (Num 7) MAX_SPEED \<and> py_lt (Num (- 30)) (py_neg MAX_ANGLE) \<and>
   speed (Drive_message (set_speed_angle (Num 7) (Num (- 30)) Drive_init)) = Num 5 \<and>
   steering_angle (Drive_message (set_speed_angle (Num 7) (Num (- 30)) Drive_init)) = Num (- 20)"
proof -
  note t = set_speed_angle_clamps [of "Num 7" "Num (- 30)" Drive_init]
  have h1: "py_gt (Num 7) MAX_SPEED"
    by (simp add: py_gt_def MAX_SPEED_def)
  have h2: "py_lt (Num (- 30)) (py_neg MAX_ANGLE)"
    by (simp add: MAX_ANGLE_def)
  from t h1 have r1: "speed (Drive_message (set_speed_angle (Num 7) (Num (- 30)) Drive_init)) = MAX_SPEED"
    by blast
  from t h2 have r2: "steering_angle (Drive_message (set_speed_angle (Num 7) (Num (- 30)) Drive_init)) =
      py_neg MAX_ANGLE"
    by blast
  have c1: "MAX_SPEED = Num 5"
    by (simp add: MAX_SPEED_def)
  have c2: "py_neg MAX_ANGLE = Num (- 20)"
    by (simp add: MAX_ANGLE_def)
  show ?thesis
    using h1 h2 r1 r2 c1 c2 by simp
qed

text \<open>
  C8. \<open>Drive.__update\<close> (the flush) publishes the pending command unconditionally and
  leaves it in place, so two flushes in a row publish the same command twice; a drive
  module on which \<open>set_speed_angle\<close> was never called publishes the command (0, 0).
\<close>

theorem flush_idempotent:
  "Drive_publisher (Drive_update d) = Drive_publisher d @ [Drive_message d] \<and>
   Drive_message (Drive_update d) = Drive_message d \<and>
   Drive_publisher (Drive_update (Drive_update d)) =
     Drive_publisher d @ [Drive_message d, Drive_message d] \<and>
   Drive_publisher (Drive_update Drive_init) = [\<lparr>speed = Num 0, steering_angle = Num 0\<rparr>]"
  by (simp add: Drive_update_def Drive_init_def AckermannDriveStamped_def)

section \<open>Properties of the controller module\<close>

text \<open>
  C6. An argument that is not a member of the enum an accessor expects gets the benign
  default, in every controller state and without an exception: \<open>is_down\<close>,
  \<open>was_pressed\<close> and \<open>was_released\<close> return false, \<open>get_trigger\<close> returns 0 and
  \<open>get_joystick\<close> returns (0, 0).
\<close>

theorem invalid_identifier_defaults:
  "((\<forall>b. obj \<noteq> Obj_Button b) \<longrightarrow>
      is_down c obj = Inr False \<and> was_pressed c obj = Inr False \<and>
      was_released c obj = Inr False) \<and>
   ((\<forall>t. obj \<noteq> Obj_Trigger t) \<longrightarrow> get_trigger c obj = Inr (Num 0)) \<and>
   ((\<forall>j. obj \<noteq> Obj_Joystick j) \<longrightarrow> get_joystick c obj = Inr [Num 0, Num 0])"
  by (cases obj) simp_all

theorem invalid_identifier_defaults_witness:
  "(\<forall>b. Obj_Str ''A'' \<noteq> Obj_Button b) \<and>
   (\<forall>t. Obj_Num (Num 0) \<noteq> Obj_Trigger t) \<and>
   (\<forall>j. Obj_None \<noteq> Obj_Joystick j) \<and>
   is_down Controller_init (Obj_Str ''A'') = Inr False \<and>
   was_pressed Controller_init (Obj_Str ''A'') = Inr False \<and>
   was_released Controller_init (Obj_Str ''A'') = Inr False \<and>
   get_trigger Controller_init (Obj_Num (Num 0)) = Inr (Num 0) \<and>
   get_joystick Controller_init Obj_None = Inr [Num 0, Num 0]"
  using invalid_identifier_defaults [of "Obj_Str ''A''" Controller_init]
        invalid_identifier_defaults [of "Obj_Num (Num 0)" Controller_init]
        invalid_identifier_defaults [of Obj_None Controller_init]
  by simp

text \<open>
  C7. In every controller state and for every button, \<open>was_pressed\<close> and
  \<open>was_released\<close> are never both true.
\<close>

theorem edges_exclusive:
  "\<not> (was_pressed c obj = Inr True \<and> was_released c obj = Inr True)"
  by (cases obj) (auto split: sum.splits if_splits)

lemma Button_value_less: "Button_value b < 8"
  by (cases b) simp_all

lemma Trigger_value_less: "Trigger_value t < 2"
  by (cases t) simp_all

lemma Joystick_value_less: "Joystick_value j < 2"
  by (cases j) simp_all

lemma Button_value_inj: "Button_value b' = Button_value b \<longleftrightarrow> b' = b"
  by (cases b; cases b') simp_all

lemma well_formed_init: "well_formed Controller_init"
  by (simp add: well_formed_def Controller_init_def)

lemma button_callback_wf:
  assumes "well_formed c"
  shows "button_callback b v c =
           Inr (c\<lparr>Controller_cur_down := (Controller_cur_down c)[Button_value b := py_bool v]\<rparr>)"
  using assms Button_value_less [of b]
  by (simp add: button_callback_def py_store_def well_formed_def)

lemma trigger_callback_wf:
  assumes "well_formed c"
  shows "trigger_callback t v c =
           Inr (c\<lparr>Controller_cur_trigger := (Controller_cur_trigger c)[Trigger_value t := v]\<rparr>)"
  using assms Trigger_value_less [of t]
  by (simp add: trigger_callback_def py_store_def well_formed_def)

lemma map_length_two:
  "map length xss = [2, 2] \<longleftrightarrow> (\<exists>r0 r1. xss = [r0, r1] \<and> length r0 = 2 \<and> length r1 = 2)"
  by (cases xss; cases "tl xss") auto

lemma joystick_right_callback_wf:
  assumes "well_formed c" and "axis < 2"
  shows "joystick_callback Joystick_RIGHT axis v c =
           Inr (c\<lparr>Controller_cur_joystick :=
                  (Controller_cur_joystick c)[1 := (Controller_cur_joystick c ! 1)[axis := v]]\<rparr>)"
proof -
  from assms(1) obtain r0 r1 where rows: "Controller_cur_joystick c = [r0, r1]"
    and len: "length r0 = 2" "length r1 = 2"
    unfolding well_formed_def map_length_two by blast
  show ?thesis
    using assms(2) by (simp add: joystick_callback_def py_index_def py_store_def rows len)
qed

lemma well_formed_update: "well_formed c \<Longrightarrow> well_formed (Controller_update c)"
  by (simp add: well_formed_def Controller_update_def)

lemma button_events_wf:
  "well_formed c \<Longrightarrow>
     \<exists>c'. button_events evs c = Inr c' \<and> well_formed c' \<and>
          Controller_is_down c' = Controller_is_down c \<and>
          Controller_was_down c' = Controller_was_down c \<and>
          Controller_cur_down c' ! Button_value b =
            latest b evs (Controller_cur_down c ! Button_value b)"
proof (induction evs arbitrary: c)
  case Nil
  then show ?case by simp
next
  case (Cons ev evs)
  obtain b' v where ev: "ev = (b', v)" by (cases ev)
  let ?c1 = "c\<lparr>Controller_cur_down := (Controller_cur_down c)[Button_value b' := py_bool v]\<rparr>"
  have step: "button_callback b' v c = Inr ?c1"
    using Cons.prems by (rule button_callback_wf)
  have wf1: "well_formed ?c1"
    using Cons.prems by (simp add: well_formed_def)
  have len: "Button_value b < length (Controller_cur_down c)"
    using Cons.prems Button_value_less [of b] by (simp add: well_formed_def)
  have val: "Controller_cur_down ?c1 ! Button_value b =
             (if b' = b then py_bool v else Controller_cur_down c ! Button_value b)"
    using len by (simp add: nth_list_update Button_value_inj)
  from Cons.IH [OF wf1] obtain c' where
    "button_events evs ?c1 = Inr c'" "well_formed c'"
    "Controller_is_down c' = Controller_is_down ?c1"
    "Controller_was_down c' = Controller_was_down ?c1"
    "Controller_cur_down c' ! Button_value b =
       latest b evs (Controller_cur_down ?c1 ! Button_value b)"
    by blast
  then show ?case
    unfolding ev using step val by simp
qed

lemma was_pressed_wf:
  assumes "well_formed c"
  shows "was_pressed c (Obj_Button b) =
           Inr (Controller_is_down c ! Button_value b \<and> \<not> Controller_was_down c ! Button_value b)"
  using assms Button_value_less [of b] by (simp add: py_index_def well_formed_def)

lemma ticks_edges:
  "well_formed c \<Longrightarrow>
     \<exists>cs. ticks fs c = Inr cs \<and> length cs = length fs \<and>
       map (\<lambda>s. Controller_is_down s ! Button_value b) cs =
         snapshots b fs (Controller_cur_down c ! Button_value b) \<and>
       length (filter (\<lambda>s. was_pressed s (Obj_Button b) = Inr True) cs) =
         rising_edges (Controller_is_down c ! Button_value b #
                       map (\<lambda>s. Controller_is_down s ! Button_value b) cs)"
proof (induction fs arbitrary: c)
  case Nil
  then show ?case by simp
next
  case (Cons evs fs)
  from button_events_wf [OF Cons.prems, of evs b] obtain c' where
    ev: "button_events evs c = Inr c'" and wf': "well_formed c'"
    and same: "Controller_is_down c' = Controller_is_down c"
    and cur: "Controller_cur_down c' ! Button_value b =
                latest b evs (Controller_cur_down c ! Button_value b)"
    by blast
  let ?c1 = "Controller_update c'"
  have wf1: "well_formed ?c1" using wf' by (rule well_formed_update)
  from Cons.IH [OF wf1] obtain cs where
    run: "ticks fs ?c1 = Inr cs" and len: "length cs = length fs"
    and snaps: "map (\<lambda>s. Controller_is_down s ! Button_value b) cs =
                  snapshots b fs (Controller_cur_down ?c1 ! Button_value b)"
    and cnt: "length (filter (\<lambda>s. was_pressed s (Obj_Button b) = Inr True) cs) =
                rising_edges (Controller_is_down ?c1 ! Button_value b #
                  map (\<lambda>s. Controller_is_down s ! Button_value b) cs)"
    by blast
  have is1: "Controller_is_down ?c1 = Controller_cur_down c'"
    and cur1: "Controller_cur_down ?c1 = Controller_cur_down c'"
    and was1: "Controller_was_down ?c1 = Controller_is_down c"
    by (simp_all add: Controller_update_def same)
  have pressed1: "was_pressed ?c1 (Obj_Button b) =
      Inr (Controller_cur_down c' ! Button_value b \<and> \<not> Controller_is_down c ! Button_value b)"
    using was_pressed_wf [OF wf1, of b] by (simp add: is1 was1)
  have res: "ticks (evs # fs) c = Inr (?c1 # cs)"
    by (simp add: ev run)
  have snaps': "map (\<lambda>s. Controller_is_down s ! Button_value b) (?c1 # cs) =
                  snapshots b (evs # fs) (Controller_cur_down c ! Button_value b)"
    using snaps by (simp add: is1 cur1 cur)
  have cnt': "length (filter (\<lambda>s. was_pressed s (Obj_Button b) = Inr True) (?c1 # cs)) =
                rising_edges (Controller_is_down c ! Button_value b #
                  map (\<lambda>s. Controller_is_down s ! Button_value b) (?c1 # cs))"
    using cnt by (simp add: pressed1 is1 del: was_pressed.simps)
  show ?case
    using res len snaps' cnt' by (intro exI [of _ "?c1 # cs"] conjI) simp_all
qed

text \<open>
  C2. Take any run of ticks from the initial controller state, each tick with any number
  of raw button events before its commit. The run raises nothing; the committed
  \<open>is_down\<close> value of button \<open>b\<close> after each commit is the value of the last raw
  event for \<open>b\<close> so far; and the number of ticks on which \<open>was_pressed(b)\<close> is true is
  the number of places where the sequence of committed values goes from false to true. The
  answer of \<open>was_pressed\<close> does not depend on the raw accumulator.
\<close>

theorem was_pressed_once_per_rising_edge:
  "(\<exists>cs. ticks fs Controller_init = Inr cs \<and> length cs = length fs \<and>
      map (\<lambda>s. Controller_is_down s ! Button_value b) cs = snapshots b fs False \<and>
      length (filter (\<lambda>s. was_pressed s (Obj_Button b) = Inr True) cs) =
        rising_edges (False # map (\<lambda>s. Controller_is_down s ! Button_value b) cs)) \<and>
   was_pressed (c\<lparr>Controller_cur_down := raw\<rparr>) obj = was_pressed c obj"
proof -
  have init: "Controller_is_down Controller_init ! Button_value b = False"
    "Controller_cur_down Controller_init ! Button_value b = False"
    using Button_value_less [of b] by (simp_all add: Controller_init_def)
  have indep: "was_pressed (c\<lparr>Controller_cur_down := raw\<rparr>) obj = was_pressed c obj"
    by (cases obj) (simp_all cong: sum.case_cong if_cong)
  show ?thesis
    using ticks_edges [OF well_formed_init, of fs b] indep unfolding init by simp
qed

theorem was_pressed_once_per_rising_edge_witness:
  "\<exists>cs. ticks [[(Button_A, Num 1), (Button_A, Num 0), (Button_A, Num 1)], [(Button_A, Num 1)],
               [(Button_A, Num 0)], [(Button_B, Num 1), (Button_A, Num 1)]] Controller_init = Inr cs \<and>
        map (\<lambda>s. Controller_is_down s ! Button_value Button_A) cs = [True, True, False, True] \<and>
        length (filter (\<lambda>s. was_pressed s (Obj_Button Button_A) = Inr True) cs) = 2"
proof -
  let ?fs = "[[(Button_A, Num 1), (Button_A, Num 0), (Button_A, Num 1)], [(Button_A, Num 1)],
              [(Button_A, Num 0)], [(Button_B, Num 1), (Button_A, Num 1)]]"
  have snap: "snapshots Button_A ?fs False = [True, True, False, True]"
    by (simp add: py_bool_def)
  from was_pressed_once_per_rising_edge [of ?fs Button_A]
  obtain cs where "ticks ?fs Controller_init = Inr cs"
    and "map (\<lambda>s. Controller_is_down s ! Button_value Button_A) cs = snapshots Button_A ?fs False"
    and "length (filter (\<lambda>s. was_pressed s (Obj_Button Button_A) = Inr True) cs) =
           rising_edges (False # map (\<lambda>s. Controller_is_down s ! Button_value Button_A) cs)"
    by blast
  then show ?thesis
    unfolding snap by (intro exI [of _ cs]) simp
qed

section \<open>Properties of the lidar module\<close>

lemma arrivals_last:
  "arrivals (ss @ [s]) l = scan_callback s (arrivals ss l)"
  by (induction ss arbitrary: l) simp_all

text \<open>
  C5. Before any scan has arrived, a read with a timeout returns when the timeout has
  elapsed, with the empty sequence (\<open>get_ranges\<close>) and with 0 (\<open>get_length\<close>), and
  raises nothing. Once at least one scan has arrived, a read without a timeout returns at
  once with the scan that arrived last (resp. its length).
\<close>

theorem lidar_reads:
  "get_ranges (Some t) Lidar_init = Some (Timeout_elapsed, []) \<and>
   get_length (Some t) Lidar_init = Some (Timeout_elapsed, 0) \<and>
   get_ranges None (arrivals (ss @ [s]) l) = Some (At_once, s) \<and>
   get_length None (arrivals (ss @ [s]) l) = Some (At_once, length s)"
  by (simp add: arrivals_last get_ranges_def get_length_def event_wait_def
      Lidar_init_def scan_callback_def)

section \<open>Properties of the racecar\<close>

subsection \<open>The shape of the controller state is kept\<close>

lemma registered_joystick:
  assumes "i < length registrations" and "snd (registrations ! i) = Cb_joystick j axis"
  shows "j = Joystick_RIGHT \<and> axis < 2"
proof -
  have "\<forall>p \<in> set registrations. \<forall>j axis. snd p = Cb_joystick j axis \<longrightarrow>
          j = Joystick_RIGHT \<and> axis < 2"
    by (simp add: registrations_def)
  with assms show ?thesis
    using nth_mem by blast
qed

lemma controller_handle_start: "controller (snd (handle_start rc)) = controller rc"
  by (simp add: handle_start_def Let_def split: user_value.splits)

lemma controller_handle_back: "controller (snd (handle_back rc)) = controller rc"
  by (simp add: handle_back_def)

lemma controller_handle_exit: "controller (snd (handle_exit rc)) = controller rc"
  by (simp add: handle_exit_def)

lemma controller_start_callback:
  "controller (snd (start_callback v rc)) = (controller rc)\<lparr>Controller_cur_start := v\<rparr>"
  by (simp add: start_callback_def Let_def controller_handle_start controller_handle_exit)

lemma controller_back_callback:
  "controller (snd (back_callback v rc)) = (controller rc)\<lparr>Controller_cur_back := v\<rparr>"
  by (simp add: back_callback_def Let_def controller_handle_back controller_handle_exit)

lemma controller_run_iteration:
  "controller (snd (run_iteration rc)) = controller rc \<or>
   controller (snd (run_iteration rc)) = Controller_update (controller rc)"
  by (auto simp: run_iteration_def default_update_def update_modules_def
      split: update_ref.splits user_value.splits sum.splits prod.splits outcome.splits)

lemma shape_update:
  "well_formed c \<and> left_at_rest c \<Longrightarrow>
     well_formed (Controller_update c) \<and> left_at_rest (Controller_update c)"
  by (simp add: well_formed_def left_at_rest_def Controller_update_def)

lemma shape_cur_start:
  "well_formed c \<and> left_at_rest c \<Longrightarrow>
     well_formed (c\<lparr>Controller_cur_start := v\<rparr>) \<and> left_at_rest (c\<lparr>Controller_cur_start := v\<rparr>)"
  by (simp add: well_formed_def left_at_rest_def)

lemma shape_cur_back:
  "well_formed c \<and> left_at_rest c \<Longrightarrow>
     well_formed (c\<lparr>Controller_cur_back := v\<rparr>) \<and> left_at_rest (c\<lparr>Controller_cur_back := v\<rparr>)"
  by (simp add: well_formed_def left_at_rest_def)

lemma shape_button_callback:
  assumes "well_formed c \<and> left_at_rest c"
  shows "\<exists>c'. button_callback b v c = Inr c' \<and> well_formed c' \<and> left_at_rest c'"
  using assms button_callback_wf [of c b v]
  by (simp add: well_formed_def left_at_rest_def)

lemma shape_trigger_callback:
  assumes "well_formed c \<and> left_at_rest c"
  shows "\<exists>c'. trigger_callback t v c = Inr c' \<and> well_formed c' \<and> left_at_rest c'"
  using assms trigger_callback_wf [of c t v]
  by (simp add: well_formed_def left_at_rest_def)

lemma shape_joystick_callback:
  assumes "well_formed c \<and> left_at_rest c" and "axis < 2"
  shows "\<exists>c'. joystick_callback Joystick_RIGHT axis v c = Inr c' \<and>
              well_formed c' \<and> left_at_rest c'"
proof -
  from assms(1) obtain r0 r1 where rows: "Controller_cur_joystick c = [r0, r1]"
    and len: "length r0 = 2" "length r1 = 2"
    unfolding well_formed_def map_length_two by blast
  show ?thesis
    using assms joystick_right_callback_wf [of c axis v]
    by (simp add: well_formed_def left_at_rest_def rows len)
qed

lemma shape_invoke:
  assumes "well_formed (controller rc) \<and> left_at_rest (controller rc)"
    and "i < length registrations"
  shows "well_formed (controller (snd (invoke (snd (registrations ! i)) v rc))) \<and>
         left_at_rest (controller (snd (invoke (snd (registrations ! i)) v rc)))"
proof (cases "snd (registrations ! i)")
  case (Cb_button b)
  from shape_button_callback [OF assms(1), of b v] show ?thesis
    by (auto simp: Cb_button on_controller_def)
next
  case (Cb_trigger t)
  from shape_trigger_callback [OF assms(1), of t v] show ?thesis
    by (auto simp: Cb_trigger on_controller_def)
next
  case (Cb_joystick j axis)
  from registered_joystick [OF assms(2) Cb_joystick]
  have j: "j = Joystick_RIGHT" and ax: "axis < 2" by simp_all
  from shape_joystick_callback [OF assms(1) ax, of v] show ?thesis
    by (auto simp: Cb_joystick j on_controller_def)
next
  case Cb_start
  then show ?thesis
    using shape_cur_start [OF assms(1)] by (simp add: controller_start_callback)
next
  case Cb_back
  then show ?thesis
    using shape_cur_back [OF assms(1)] by (simp add: controller_back_callback)
qed

lemma shape_step:
  assumes "well_formed (controller rc) \<and> left_at_rest (controller rc)"
  shows "well_formed (controller (snd (step e rc))) \<and>
         left_at_rest (controller (snd (step e rc)))"
proof (cases e)
  case (Fire i v)
  then show ?thesis
    using assms shape_invoke [OF assms, of i v] by simp
next
  case Tick
  then show ?thesis
    using assms shape_update [OF assms] controller_run_iteration [of rc] by auto
next
  case (Set_start_update s u)
  then show ?thesis
    using assms by (simp add: set_start_update_def)
qed

lemma shape_run:
  "well_formed (controller rc) \<and> left_at_rest (controller rc) \<Longrightarrow>
     well_formed (controller (snd (run evs rc))) \<and>
     left_at_rest (controller (snd (run evs rc)))"
proof (induction evs arbitrary: rc)
  case Nil
  then show ?case by simp
next
  case (Cons e evs)
  have s: "well_formed (controller (snd (step e rc))) \<and>
           left_at_rest (controller (snd (step e rc)))"
    using Cons.prems by (rule shape_step)
  have r: "snd (run (e # evs) rc) = snd (run evs (snd (step e rc)))"
    by (simp split: prod.splits)
  show ?case
    unfolding r using s by (rule Cons.IH)
qed

lemma shape_init:
  "well_formed (controller Racecar_init) \<and> left_at_rest (controller Racecar_init)"
  by (simp add: Racecar_init_def handle_back_def Let_def well_formed_def left_at_rest_def
      Controller_init_def)

subsection \<open>The default update\<close>

lemma get_trigger_wf:
  "well_formed c \<Longrightarrow>
     get_trigger c (Obj_Trigger t) = Inr (Controller_last_trigger c ! Trigger_value t)"
  using Trigger_value_less [of t] by (simp add: py_index_def well_formed_def)

lemma get_joystick_wf:
  "well_formed c \<Longrightarrow>
     get_joystick c (Obj_Joystick j) = Inr (Controller_last_joystick c ! Joystick_value j) \<and>
     length (Controller_last_joystick c ! Joystick_value j) = 2"
  using Joystick_value_less [of j]
  by (auto simp: py_index_def well_formed_def map_length_two nth_Cons')

lemma default_command_wf:
  assumes "well_formed c"
  shows "default_command c =
     Inr (if py_gt (Controller_last_trigger c ! 0) (Num 0) \<and>
             py_gt (Controller_last_trigger c ! 1) (Num 0)
          then Num 0
          else py_mul (py_sub (Controller_last_trigger c ! 0) (Controller_last_trigger c ! 1))
                 SPEED_MULTIPLIER,
          py_mul (Controller_last_joystick c ! 0 ! 0) ANGLE_MULTIPLIER)"
proof -
  have t0: "get_trigger c (Obj_Trigger Trigger_LEFT) = Inr (Controller_last_trigger c ! 0)"
    and t1: "get_trigger c (Obj_Trigger Trigger_RIGHT) = Inr (Controller_last_trigger c ! 1)"
    using get_trigger_wf [OF assms, of Trigger_LEFT] get_trigger_wf [OF assms, of Trigger_RIGHT]
    by simp_all
  have j: "get_joystick c (Obj_Joystick Joystick_LEFT) = Inr (Controller_last_joystick c ! 0)"
    and l: "length (Controller_last_joystick c ! 0) = 2"
    using get_joystick_wf [OF assms, of Joystick_LEFT] by simp_all
  show ?thesis
    unfolding default_command_def t0 t1 j by (simp add: Let_def py_index_def l)
qed

text \<open>
  C9. After every sequence of events from the initial racecar (registered callbacks
  called by the driver with any values, loop iterations, calls of
  \<open>set_start_update\<close>), \<open>get_joystick(Joystick.LEFT)\<close> returns (0, 0) and the
  steering angle that the default update computes is 0. The callbacks registered for
  LTHUMBX, LTHUMBY and (twice) RTHUMBX all write the raw state of \<open>Joystick.RIGHT\<close>, and
  no registered callback writes that of \<open>Joystick.LEFT\<close>.
\<close>

theorem left_joystick_always_zero:
  "get_joystick (controller (snd (run evs Racecar_init))) (Obj_Joystick Joystick_LEFT) =
     Inr [Num 0, Num 0] \<and>
   (\<exists>sp. default_command (controller (snd (run evs Racecar_init))) = Inr (sp, Num 0)) \<and>
   map snd (filter (\<lambda>p. fst p \<in> {XBOX_LTHUMBX, XBOX_LTHUMBY, XBOX_RTHUMBX}) registrations) =
     [Cb_joystick Joystick_RIGHT 0, Cb_joystick Joystick_RIGHT 1,
      Cb_joystick Joystick_RIGHT 0, Cb_joystick Joystick_RIGHT 1] \<and>
   filter (\<lambda>p. \<exists>axis. snd p = Cb_joystick Joystick_LEFT axis) registrations = []"
proof -
  let ?c = "controller (snd (run evs Racecar_init))"
  have wf: "well_formed ?c" and rest: "left_at_rest ?c"
    using shape_run [OF shape_init, of evs] by simp_all
  have read: "get_joystick ?c (Obj_Joystick Joystick_LEFT) = Inr [Num 0, Num 0]"
    using get_joystick_wf [OF wf, of Joystick_LEFT] rest by (simp add: left_at_rest_def)
  have ang: "py_mul (Controller_last_joystick ?c ! 0 ! 0) ANGLE_MULTIPLIER = Num 0"
    using rest by (simp add: left_at_rest_def ANGLE_MULTIPLIER_def)
  have cmd: "\<exists>sp. default_command ?c = Inr (sp, Num 0)"
    using default_command_wf [OF wf] unfolding ang by blast
  have regs: "map snd (filter (\<lambda>p. fst p \<in> {XBOX_LTHUMBX, XBOX_LTHUMBY, XBOX_RTHUMBX})
                registrations) =
     [Cb_joystick Joystick_RIGHT 0, Cb_joystick Joystick_RIGHT 1,
      Cb_joystick Joystick_RIGHT 0, Cb_joystick Joystick_RIGHT 1]"
    by (simp add: registrations_def)
  have none: "filter (\<lambda>p. \<exists>axis. snd p = Cb_joystick Joystick_LEFT axis) registrations = []"
    by (simp add: registrations_def)
  show ?thesis
    using read cmd regs none by blast
qed

text \<open>
  C4. In a controller state of the shape that \<open>Controller.__init__\<close> builds (every
  run keeps it, by \<open>shape_run\<close>), when the committed forward and back trigger values
  are both greater than 0, the built-in default update returns normally, passes speed 0 to
  \<open>set_speed_angle\<close>, and 0 is the speed of the command it stores.
\<close>

theorem dual_trigger_stop:
  assumes "well_formed (controller rc)"
    and "get_trigger (controller rc) (Obj_Trigger Trigger_LEFT) = Inr forwardSpeed"
    and "get_trigger (controller rc) (Obj_Trigger Trigger_RIGHT) = Inr backSpeed"
    and "py_gt forwardSpeed (Num 0)" and "py_gt backSpeed (Num 0)"
  shows "\<exists>ang. default_command (controller rc) = Inr (Num 0, ang) \<and>
           default_update rc = (Normal, rc\<lparr>drive := set_speed_angle (Num 0) ang (drive rc)\<rparr>) \<and>
           speed (Drive_message (drive (snd (default_update rc)))) = Num 0"
proof -
  let ?c = "controller rc"
  have f: "Controller_last_trigger ?c ! 0 = forwardSpeed"
    using get_trigger_wf [OF assms(1), of Trigger_LEFT] assms(2) by simp
  have b: "Controller_last_trigger ?c ! 1 = backSpeed"
    using get_trigger_wf [OF assms(1), of Trigger_RIGHT] assms(3) by simp
  let ?ang = "py_mul (Controller_last_joystick ?c ! 0 ! 0) ANGLE_MULTIPLIER"
  have cmd: "default_command ?c = Inr (Num 0, ?ang)"
    using default_command_wf [OF assms(1)] assms(4,5) unfolding f b by simp
  have upd: "default_update rc =
               (Normal, rc\<lparr>drive := set_speed_angle (Num 0) ?ang (drive rc)\<rparr>)"
    by (simp add: default_update_def cmd)
  have sp: "speed (Drive_message (set_speed_angle (Num 0) ?ang (drive rc))) = Num 0"
    by (simp add: set_speed_angle_def Let_def MAX_SPEED_def py_min_def py_max_def py_gt_def)
  show ?thesis
    using cmd upd sp by (intro exI [of _ ?ang]) simp
qed

theorem dual_trigger_stop_witness:
  "well_formed (controller (Racecar_init\<lparr>controller :=
       Controller_init\<lparr>Controller_last_trigger := [Num 1, Num (1/2)]\<rparr>\<rparr>)) \<and>
   py_gt (Num 1) (Num 0) \<and> py_gt (Num (1/2)) (Num 0) \<and>
   speed (Drive_message (drive (snd (default_update (Racecar_init\<lparr>controller :=
       Controller_init\<lparr>Controller_last_trigger := [Num 1, Num (1/2)]\<rparr>\<rparr>))))) = Num 0"
proof -
  let ?rc = "Racecar_init\<lparr>controller :=
       Controller_init\<lparr>Controller_last_trigger := [Num 1, Num (1/2)]\<rparr>\<rparr>"
  have wf: "well_formed (controller ?rc)"
    by (simp add: well_formed_def Controller_init_def)
  have f: "get_trigger (controller ?rc) (Obj_Trigger Trigger_LEFT) = Inr (Num 1)"
    by (simp add: py_index_def)
  have b: "get_trigger (controller ?rc) (Obj_Trigger Trigger_RIGHT) = Inr (Num (1/2))"
    by (simp add: py_index_def)
  have pf: "py_gt (Num 1) (Num 0)" and pb: "py_gt (Num (1/2)) (Num 0)"
    by (simp_all add: py_gt_def)
  from dual_trigger_stop [OF wf f b pf pb] show ?thesis
    using wf pf pb by blast
qed

subsection \<open>Mode transitions\<close>

lemma run_iteration_keeps:
  "start_calls (snd (run_iteration rc)) = start_calls rc \<and>
   Racecar_cur_update (snd (run_iteration rc)) = Racecar_cur_update rc \<and>
   Racecar_user_start (snd (run_iteration rc)) = Racecar_user_start rc"
  by (auto simp: run_iteration_def default_update_def update_modules_def start_calls_def
      split: update_ref.splits user_value.splits sum.splits prod.splits outcome.splits)

lemma iterations_keep:
  "start_calls (snd (iterations n rc)) = start_calls rc \<and>
   Racecar_cur_update (snd (iterations n rc)) = Racecar_cur_update rc"
proof (induction n arbitrary: rc)
  case 0
  then show ?case by simp
next
  case (Suc n)
  obtain out rc' where it: "run_iteration rc = (out, rc')" by (cases "run_iteration rc")
  have keep: "start_calls rc' = start_calls rc \<and> Racecar_cur_update rc' = Racecar_cur_update rc"
    using run_iteration_keeps [of rc] it by simp
  show ?case
  proof (cases out)
    case Normal
    then show ?thesis using Suc.IH [of rc'] keep it by simp
  next
    case (Raised e)
    then show ?thesis using keep it by simp
  next
    case SystemExit
    then show ?thesis using keep it by simp
  qed
qed

lemma start_callback_enters:
  assumes "Racecar_user_start rc = PyFun f" and "py_bool v"
    and "\<not> py_bool (Controller_cur_back (controller rc))"
  shows "start_callback v rc =
     (Normal,
      rc\<lparr>controller := (controller rc)\<lparr>Controller_cur_start := v\<rparr>,
         trace := trace rc @ [Print ''>> Entering user program mode'', Call_user_start],
         drive := f ((controller rc)\<lparr>Controller_cur_start := v\<rparr>) (drive rc),
         Racecar_cur_update := User_update (Racecar_user_update rc)\<rparr>)"
  using assms by (simp add: start_callback_def handle_start_def Let_def)

lemma start_callback_raises:
  assumes "Racecar_user_start rc = PyNone" and "py_bool v"
    and "\<not> py_bool (Controller_cur_back (controller rc))"
  shows "start_callback v rc =
     (Raised TypeError,
      rc\<lparr>controller := (controller rc)\<lparr>Controller_cur_start := v\<rparr>,
         trace := trace rc @ [Print ''>> Entering user program mode'']\<rparr>)"
  using assms by (simp add: start_callback_def handle_start_def Let_def)

lemma start_callback_exits:
  assumes "py_bool v" and "py_bool (Controller_cur_back (controller rc))"
  shows "start_callback v rc =
     (SystemExit,
      rc\<lparr>controller := (controller rc)\<lparr>Controller_cur_start := v\<rparr>,
         trace := trace rc @ [Print ''>> Goodbye!'']\<rparr>)"
  using assms by (simp add: start_callback_def handle_exit_def Let_def)

lemma back_callback_exits:
  assumes "py_bool v" and "py_bool (Controller_cur_start (controller rc))"
  shows "back_callback v rc =
     (SystemExit,
      rc\<lparr>controller := (controller rc)\<lparr>Controller_cur_back := v\<rparr>,
         trace := trace rc @ [Print ''>> Goodbye!'']\<rparr>)"
  using assms by (simp add: back_callback_def handle_exit_def Let_def)

lemma start_enters_user_program:
  assumes "Racecar_user_start rc = PyFun f" and "py_bool v"
    and "\<not> py_bool (Controller_cur_back (controller rc))"
  shows "fst (start_callback v rc) = Normal \<and>
      Racecar_cur_update (snd (start_callback v rc)) = User_update (Racecar_user_update rc) \<and>
      trace (snd (start_callback v rc)) =
        trace rc @ [Print ''>> Entering user program mode'', Call_user_start] \<and>
      start_calls (snd (start_callback v rc)) = start_calls rc + 1 \<and>
      start_calls (snd (iterations n (snd (start_callback v rc)))) = start_calls rc + 1 \<and>
      Racecar_cur_update (snd (iterations n (snd (start_callback v rc)))) =
        User_update (Racecar_user_update rc)"
proof -
  note eq = start_callback_enters [OF assms]
  have a: "fst (start_callback v rc) = Normal"
    and b: "Racecar_cur_update (snd (start_callback v rc)) =
              User_update (Racecar_user_update rc)"
    and c: "trace (snd (start_callback v rc)) =
              trace rc @ [Print ''>> Entering user program mode'', Call_user_start]"
    by (simp_all add: eq)
  have d: "start_calls (snd (start_callback v rc)) = start_calls rc + 1"
    by (simp add: start_calls_def c)
  show ?thesis
    using a b c d iterations_keep [of n "snd (start_callback v rc)"] by simp
qed



subsection \<open>Start without user functions\<close>

lemma user_start_invoke:
  "Racecar_user_start (snd (invoke cb v rc)) = Racecar_user_start rc"
  by (cases cb)
     (auto simp: on_controller_def start_callback_def back_callback_def handle_start_def
        handle_back_def handle_exit_def Let_def split: sum.splits user_value.splits)

lemma user_start_step:
  "\<not> is_set_start_update e \<Longrightarrow> Racecar_user_start (snd (step e rc)) = Racecar_user_start rc"
  by (cases e) (simp_all add: user_start_invoke run_iteration_keeps)

lemma user_start_run:
  "\<not> list_ex is_set_start_update evs \<Longrightarrow>
     Racecar_user_start (snd (run evs rc)) = Racecar_user_start rc"
proof (induction evs arbitrary: rc)
  case Nil
  then show ?case by simp
next
  case (Cons e evs)
  have e: "\<not> is_set_start_update e" and rest: "\<not> list_ex is_set_start_update evs"
    using Cons.prems by simp_all
  have r: "snd (run (e # evs) rc) = snd (run evs (snd (step e rc)))"
    by (simp split: prod.splits)
  show ?case
    unfolding r using Cons.IH [OF rest, of "snd (step e rc)"] user_start_step [OF e, of rc]
    by simp
qed

lemma user_start_init: "Racecar_user_start Racecar_init = PyNone"
  by (simp add: Racecar_init_def handle_back_def Let_def)

text \<open>
  C10. As long as \<open>set_start_update\<close> has not been called, the stored start function is
  \<open>None\<close>, and a pressed signal on start while back is not pressed raises
  \<open>TypeError\<close> at the call of that function: the mode does not change and no start
  function runs. In any state, that signal raises exactly when the stored start function
  is \<open>None\<close>; after \<open>set_start_update\<close> with a callable start function it
  returns normally.
\<close>

theorem start_before_set_start_update_raises:
  "(\<not> list_ex is_set_start_update evs \<and> py_bool v \<and>
    \<not> py_bool (Controller_cur_back (controller (snd (run evs Racecar_init)))) \<longrightarrow>
      Racecar_user_start (snd (run evs Racecar_init)) = PyNone \<and>
      fst (start_callback v (snd (run evs Racecar_init))) = Raised TypeError \<and>
      Racecar_cur_update (snd (start_callback v (snd (run evs Racecar_init)))) =
        Racecar_cur_update (snd (run evs Racecar_init)) \<and>
      start_calls (snd (start_callback v (snd (run evs Racecar_init)))) =
        start_calls (snd (run evs Racecar_init))) \<and>
   (py_bool v \<and> \<not> py_bool (Controller_cur_back (controller rc)) \<longrightarrow>
      (fst (start_callback v rc) = Raised TypeError) = (Racecar_user_start rc = PyNone)) \<and>
   (py_bool v \<and> \<not> py_bool (Controller_cur_back (controller rc)) \<longrightarrow>
      fst (start_callback v (set_start_update (PyFun f) u rc)) = Normal)"
proof -
  have raises: "fst (start_callback v r) = Raised TypeError \<and>
      Racecar_cur_update (snd (start_callback v r)) = Racecar_cur_update r \<and>
      start_calls (snd (start_callback v r)) = start_calls r"
    if "Racecar_user_start r = PyNone" "py_bool v"
       "\<not> py_bool (Controller_cur_back (controller r))" for r
    using start_callback_raises [OF that] by (simp add: start_calls_def)
  have first: "Racecar_user_start (snd (run evs Racecar_init)) = PyNone \<and>
      fst (start_callback v (snd (run evs Racecar_init))) = Raised TypeError \<and>
      Racecar_cur_update (snd (start_callback v (snd (run evs Racecar_init)))) =
        Racecar_cur_update (snd (run evs Racecar_init)) \<and>
      start_calls (snd (start_callback v (snd (run evs Racecar_init)))) =
        start_calls (snd (run evs Racecar_init))"
    if h: "\<not> list_ex is_set_start_update evs" "py_bool v"
       "\<not> py_bool (Controller_cur_back (controller (snd (run evs Racecar_init))))"
  proof -
    have none: "Racecar_user_start (snd (run evs Racecar_init)) = PyNone"
      using user_start_run [OF h(1), of Racecar_init] user_start_init by simp
    show ?thesis
      using none raises [OF none h(2) h(3)] by simp
  qed
  have iff: "(fst (start_callback v rc) = Raised TypeError) = (Racecar_user_start rc = PyNone)"
    if h: "py_bool v" "\<not> py_bool (Controller_cur_back (controller rc))"
  proof (cases "Racecar_user_start rc")
    case PyNone
    then show ?thesis using raises [OF PyNone h] by simp
  next
    case (PyFun g)
    then show ?thesis using start_callback_enters [OF PyFun h] by simp
  qed
  have callable: "fst (start_callback v (set_start_update (PyFun f) u rc)) = Normal"
    if h: "py_bool v" "\<not> py_bool (Controller_cur_back (controller rc))"
  proof -
    have us: "Racecar_user_start (set_start_update (PyFun f) u rc) = PyFun f"
      and cb: "\<not> py_bool (Controller_cur_back (controller (set_start_update (PyFun f) u rc)))"
      using h(2) by (simp_all add: set_start_update_def)
    show ?thesis
      using start_callback_enters [OF us h(1) cb] by simp
  qed
  show ?thesis
    using first iff callable by blast
qed

theorem start_before_set_start_update_raises_witness:
  "\<not> list_ex is_set_start_update [Tick, Fire 0 (Num 1), Tick] \<and>
   py_bool (Num 1) \<and>
   \<not> py_bool (Controller_cur_back (controller (snd (run [Tick, Fire 0 (Num 1), Tick] Racecar_init)))) \<and>
   fst (start_callback (Num 1) (snd (run [Tick, Fire 0 (Num 1), Tick] Racecar_init))) =
     Raised TypeError"
proof -
  let ?evs = "[Tick, Fire 0 (Num 1), Tick]"
  have h1: "\<not> list_ex is_set_start_update ?evs"
    by simp
  have h2: "py_bool (Num 1)"
    by (simp add: py_bool_def)
  have h3: "\<not> py_bool (Controller_cur_back (controller (snd (run ?evs Racecar_init))))"
    by code_simp
  from start_before_set_start_update_raises [where evs = ?evs and v = "Num 1"] h1 h2 h3
  have "fst (start_callback (Num 1) (snd (run ?evs Racecar_init))) = Raised TypeError"
    by blast
  then show ?thesis
    using h1 h2 h3 by simp
qed

end
